theory Spec2Isabelle
  imports Main "HOL-Library.AList"
begin

section \<open>Python values\<close>

text \<open>
  The integration handles decoded JSON: \<open>None\<close>, booleans, integers, strings, lists
  and dicts. JSON numbers with a fraction are left out of the model. A Python dict keeps
  its keys in insertion order, so it is an association list whose keys are distinct;
  \<open>d[k] = v\<close> replaces the value in place when \<open>k\<close> is present and appends otherwise.
  Dict keys are hashable values; \<open>True\<close> and \<open>1\<close> (and \<open>False\<close> and \<open>0\<close>) are the
  same key.
\<close>

datatype pykey = KNone | KInt int | KStr string

datatype pyval =
    PNone
  | PBool bool
  | PInt int
  | PStr string
  | PList "pyval list"
  | PDict "(pykey \<times> pyval) list"

type_synonym pydict = "(pykey \<times> pyval) list"

text \<open>The snapshot \<open>coordinator.data\<close>: device id (a string) to device entry (a dict).\<close>

type_synonym snapshot = "(string \<times> pydict) list"

text \<open>
  The exceptions the program raises or meets, all of them instances of \<open>Exception\<close>:
  \<open>PyException\<close> is a plain \<open>Exception\<close> with its message, \<open>ClientError\<close> an
  \<open>aiohttp.ClientError\<close> with its text, \<open>OtherError\<close> any other exception.
\<close>

datatype py_exc =
    UpdateFailed string
  | TimeoutError
  | ClientError string
  | PyException string
  | AttributeError
  | TypeError
  | ValueError
  | OtherError string

abbreviation setitem :: "('k \<times> 'v) list \<Rightarrow> 'k \<Rightarrow> 'v \<Rightarrow> ('k \<times> 'v) list" where
  "setitem d k v \<equiv> AList.update k v d"

definition get_default :: "('k \<times> 'v) list \<Rightarrow> 'k \<Rightarrow> 'v \<Rightarrow> 'v" where
  "get_default d k dflt = (case map_of d k of None \<Rightarrow> dflt | Some v \<Rightarrow> v)"

text \<open>\<open>hash(v)\<close>: lists and dicts are unhashable (\<open>TypeError\<close>).\<close>

fun py_key :: "pyval \<Rightarrow> py_exc + pykey" where
  "py_key PNone = Inr KNone"
| "py_key (PBool b) = Inr (KInt (if b then 1 else 0))"
| "py_key (PInt n) = Inr (KInt n)"
| "py_key (PStr s) = Inr (KStr s)"
| "py_key (PList xs) = Inl TypeError"
| "py_key (PDict kvs) = Inl TypeError"

fun key_val :: "pykey \<Rightarrow> pyval" where
  "key_val KNone = PNone"
| "key_val (KInt n) = PInt n"
| "key_val (KStr s) = PStr s"

text \<open>Truth value of a Python value, as \<open>if v:\<close> and \<open>not v\<close> test it.\<close>

fun truthy :: "pyval \<Rightarrow> bool" where
  "truthy PNone = False"
| "truthy (PBool b) = b"
| "truthy (PInt n) = (n \<noteq> 0)"
| "truthy (PStr s) = (s \<noteq> [])"
| "truthy (PList xs) = (xs \<noteq> [])"
| "truthy (PDict kvs) = (kvs \<noteq> [])"

subsection \<open>String coercion\<close>

fun digits :: "nat \<Rightarrow> string" where
  "digits n = (if n < 10 then [''0123456789'' ! n]
               else digits (n div 10) @ [''0123456789'' ! (n mod 10)])"

declare digits.simps [simp del]

definition str_int :: "int \<Rightarrow> string" where
  "str_int i = (if i < 0 then CHR ''-'' # digits (nat (- i)) else digits (nat i))"

text \<open>
  \<open>str(v)\<close>, which f-strings use too. On a list or a dict it is Python's \<open>repr\<close> of the
  container, which is no part of this program: it is the parameter \<open>repr\<close>.
\<close>

fun py_str :: "(pyval \<Rightarrow> string) \<Rightarrow> pyval \<Rightarrow> string" where
  "py_str repr PNone = ''None''"
| "py_str repr (PBool b) = (if b then ''True'' else ''False'')"
| "py_str repr (PInt n) = str_int n"
| "py_str repr (PStr s) = s"
| "py_str repr (PList xs) = repr (PList xs)"
| "py_str repr (PDict kvs) = repr (PDict kvs)"

subsection \<open>Iteration and \<open>dict.update\<close>\<close>

text \<open>\<open>for x in v\<close>: a dict yields its keys, a string its characters.\<close>

fun py_iter :: "pyval \<Rightarrow> py_exc + pyval list" where
  "py_iter (PList xs) = Inr xs"
| "py_iter (PDict kvs) = Inr (map (key_val \<circ> fst) kvs)"
| "py_iter (PStr s) = Inr (map (\<lambda>c. PStr [c]) s)"
| "py_iter PNone = Inl TypeError"
| "py_iter (PBool b) = Inl TypeError"
| "py_iter (PInt n) = Inl TypeError"

text \<open>
  \<open>d.update(other)\<close>. A dict argument is merged key by key. Any other argument is
  iterated, and each element has to be a sequence of two items, key and value; the
  elements before a bad one have been stored when the exception is raised, so the
  result is the dict reached together with the exception, if any.
\<close>

fun merge_items :: "pydict \<Rightarrow> pydict \<Rightarrow> pydict" where
  "merge_items d [] = d"
| "merge_items d ((k, v) # kvs) = merge_items (setitem d k v) kvs"

fun pair_of :: "pyval \<Rightarrow> py_exc + (pyval \<times> pyval)" where
  "pair_of v =
     (case py_iter v of
        Inl e \<Rightarrow> Inl TypeError
      | Inr [a, b] \<Rightarrow> Inr (a, b)
      | Inr _ \<Rightarrow> Inl ValueError)"

fun update_seq :: "pydict \<Rightarrow> pyval list \<Rightarrow> pydict \<times> py_exc option" where
  "update_seq d [] = (d, None)"
| "update_seq d (x # xs) =
     (case pair_of x of
        Inl e \<Rightarrow> (d, Some e)
      | Inr (a, b) \<Rightarrow>
          (case py_key a of
             Inl e \<Rightarrow> (d, Some e)
           | Inr k \<Rightarrow> update_seq (setitem d k b) xs))"

fun dict_update :: "pydict \<Rightarrow> pyval \<Rightarrow> pydict \<times> py_exc option" where
  "dict_update d (PDict kvs) = (merge_items d kvs, None)"
| "dict_update d v =
     (case py_iter v of
        Inl e \<Rightarrow> (d, Some e)
      | Inr xs \<Rightarrow> update_seq d xs)"

section \<open>const.py\<close>

definition DEFAULT_UPDATE_INTERVAL :: int where "DEFAULT_UPDATE_INTERVAL = 30"

definition RELAY_TYPE_LIGHT :: int where "RELAY_TYPE_LIGHT = 1"
definition RELAY_TYPE_SHUTTER :: int where "RELAY_TYPE_SHUTTER = 2"
definition RELAY_TYPE_ON_OFF :: int where "RELAY_TYPE_ON_OFF = 3"
definition RELAY_TYPE_GAS :: int where "RELAY_TYPE_GAS = 4"
definition RELAY_TYPE_ELECTRIC :: int where "RELAY_TYPE_ELECTRIC = 5"
definition RELAY_TYPE_WATER :: int where "RELAY_TYPE_WATER = 6"

definition API_DEVICES :: string where "API_DEVICES = ''/api/devices''"

text \<open>\<open>API_RELAY_STATE.format(device_id=...)\<close> and \<open>API_RELAY_TOGGLE.format(device_id=...)\<close>.\<close>

definition API_RELAY_STATE :: "string \<Rightarrow> string" where
  "API_RELAY_STATE device_id = ''/api/relay/'' @ device_id @ ''/state''"

definition API_RELAY_TOGGLE :: "string \<Rightarrow> string" where
  "API_RELAY_TOGGLE device_id = ''/api/relay/'' @ device_id @ ''/toggle''"

definition DEVICE_TYPE_ICONS :: "(pykey \<times> string) list" where
  "DEVICE_TYPE_ICONS =
     [(KInt RELAY_TYPE_LIGHT, ''mdi:lightbulb''),
      (KInt RELAY_TYPE_SHUTTER, ''mdi:window-shutter''),
      (KInt RELAY_TYPE_ON_OFF, ''mdi:toggle-switch''),
      (KInt RELAY_TYPE_GAS, ''mdi:gas-cylinder''),
      (KInt RELAY_TYPE_ELECTRIC, ''mdi:flash''),
      (KInt RELAY_TYPE_WATER, ''mdi:water'')]"

definition DEVICE_TYPE_NAMES :: "(pykey \<times> string) list" where
  "DEVICE_TYPE_NAMES =
     [(KInt RELAY_TYPE_LIGHT, ''Light''),
      (KInt RELAY_TYPE_SHUTTER, ''Shutter''),
      (KInt RELAY_TYPE_ON_OFF, ''Switch''),
      (KInt RELAY_TYPE_GAS, ''Gas Valve''),
      (KInt RELAY_TYPE_ELECTRIC, ''Electric Switch''),
      (KInt RELAY_TYPE_WATER, ''Water Valve'')]"

section \<open>The HTTP session\<close>

text \<open>
  A request as the coordinator issues it, and what comes back: the session call either
  raises or yields a response with a status; reading the body (\<open>await response.json()\<close>)
  either raises or yields the decoded value. The timeout block around the call is part
  of the session here: a call that runs out of time raises \<open>TimeoutError\<close>. The session
  is a parameter of every operation that uses it.
\<close>

record request =
  req_method :: string
  req_url :: string
  req_headers :: "(string \<times> string) list"
  req_json :: "pyval option"

record response =
  status :: int
  json_body :: "py_exc + pyval"

type_synonym session = "request \<Rightarrow> py_exc + response"

section \<open>coordinator.py\<close>

record config_entry =
  entry_id :: string
  tablet_ip :: string
  tablet_port :: int
  use_auth :: bool
  api_key :: string

record coordinator =
  base_url :: string
  coord_headers :: "(string \<times> string) list"
  data :: snapshot
  last_update_success :: bool

text \<open>
  \<open>__init__\<close>. Modelled from the spec: the fields of the base class start as the spec
  says, the snapshot empty and no successful update recorded.
\<close>

definition MultitekDataCoordinator :: "config_entry \<Rightarrow> coordinator" where
  "MultitekDataCoordinator entry =
     \<lparr>base_url = ''http://'' @ tablet_ip entry @ '':'' @ str_int (tablet_port entry),
      coord_headers = (if use_auth entry then [(''X-HA-Access'', api_key entry)] else []),
      data = [],
      last_update_success = False\<rparr>"

text \<open>\<open>str(device.get("id"))\<close>.\<close>

definition device_id_of :: "(pyval \<Rightarrow> string) \<Rightarrow> pydict \<Rightarrow> string" where
  "device_id_of repr device = py_str repr (get_default device (KStr ''id'') PNone)"

text \<open>The loop of \<open>_async_update_data\<close>: \<open>device.get\<close> needs a dict.\<close>

fun build_devices :: "(pyval \<Rightarrow> string) \<Rightarrow> snapshot \<Rightarrow> pyval list \<Rightarrow> py_exc + snapshot" where
  "build_devices repr devices [] = Inr devices"
| "build_devices repr devices (PDict device # rest) =
     build_devices repr (setitem devices (device_id_of repr device) device) rest"
| "build_devices repr devices (_ # rest) = Inl AttributeError"

text \<open>\<open>data.get("devices", [])\<close>, iterated.\<close>

fun devices_of :: "pyval \<Rightarrow> py_exc + pyval list" where
  "devices_of (PDict body) = py_iter (get_default body (KStr ''devices'') (PList []))"
| "devices_of _ = Inl AttributeError"

definition devices_request :: "coordinator \<Rightarrow> request" where
  "devices_request c =
     \<lparr>req_method = ''GET'', req_url = base_url c @ API_DEVICES, req_headers = coord_headers c, req_json = None\<rparr>"

text \<open>
  The handlers of \<open>_async_update_data\<close>: a timeout and a client error become
  \<open>UpdateFailed\<close>, any other exception passes through.
\<close>

fun update_handlers :: "coordinator \<Rightarrow> py_exc \<Rightarrow> py_exc" where
  "update_handlers c TimeoutError = UpdateFailed (''Timeout fetching data from '' @ base_url c)"
| "update_handlers c (ClientError m) = UpdateFailed (''Error fetching data: '' @ m)"
| "update_handlers c e = e"

definition async_update_data :: "(pyval \<Rightarrow> string) \<Rightarrow> session \<Rightarrow> coordinator \<Rightarrow> py_exc + snapshot" where
  "async_update_data repr sess c =
     (case sess (devices_request c) of
        Inl err \<Rightarrow> Inl (update_handlers c err)
      | Inr resp \<Rightarrow>
          if status resp \<noteq> 200
          then Inl (UpdateFailed (''API returned status '' @ str_int (status resp)))
          else (case json_body resp of
                  Inl err \<Rightarrow> Inl (update_handlers c err)
                | Inr body \<Rightarrow>
                    (case devices_of body of
                       Inl err \<Rightarrow> Inl (update_handlers c err)
                     | Inr xs \<Rightarrow>
                         (case build_devices repr [] xs of
                            Inl err \<Rightarrow> Inl (update_handlers c err)
                          | Inr devices \<Rightarrow> Inr devices))))"

section \<open>The refresh of the base class\<close>

text \<open>
  Modelled from the spec: the class \<open>DataUpdateCoordinator\<close> that the coordinator
  extends belongs to Home Assistant and is not among the sources. Its refresh
  calls \<open>_async_update_data\<close>; a result becomes the snapshot and sets
  \<open>last_update_success\<close>, an exception leaves the snapshot as it is and clears
  \<open>last_update_success\<close>. The notification of observers and the time stamp are left
  out.
\<close>

definition refresh :: "(pyval \<Rightarrow> string) \<Rightarrow> session \<Rightarrow> coordinator \<Rightarrow> coordinator" where
  "refresh repr sess c =
     (case async_update_data repr sess c of
        Inr devices \<Rightarrow> c\<lparr>data := devices, last_update_success := True\<rparr>
      | Inl err \<Rightarrow> c\<lparr>last_update_success := False\<rparr>)"

text \<open>
  Modelled from the spec: \<open>async_set_updated_data\<close> of the same base class stores the
  snapshot it is given, marks the coordinator as updated and calls the registered
  observers, on the same task and before it returns. The observers are the parameter
  \<open>notify\<close>, acting on a state \<open>'w\<close> of their own; an exception of an observer
  propagates to the caller.
\<close>

type_synonym 'w listeners = "coordinator \<Rightarrow> 'w \<Rightarrow> 'w \<times> py_exc option"

definition async_set_updated_data ::
  "'w listeners \<Rightarrow> coordinator \<Rightarrow> snapshot \<Rightarrow> 'w \<Rightarrow> (coordinator \<times> 'w) \<times> py_exc option" where
  "async_set_updated_data notify c new_data w =
     (let c' = c\<lparr>data := new_data, last_update_success := True\<rparr>
      in case notify c' w of (w', exc) \<Rightarrow> ((c', w'), exc))"

section \<open>coordinator.py: commands and the connection test\<close>

definition command_request :: "coordinator \<Rightarrow> string \<Rightarrow> string \<Rightarrow> pyval \<Rightarrow> request" where
  "command_request c device_id command val =
     (if command = ''toggle''
      then \<lparr>req_method = ''POST'', req_url = base_url c @ API_RELAY_TOGGLE device_id,
            req_headers = coord_headers c, req_json = Some (PDict [])\<rparr>
      else \<lparr>req_method = ''POST'', req_url = base_url c @ API_RELAY_STATE device_id,
            req_headers = coord_headers c, req_json = Some (PDict [(KStr ''state'', val)])\<rparr>)"

text \<open>
  \<open>send_relay_command\<close>. Both handlers log and raise the exception again, so every
  exception of the body reaches the caller as it is. The entry of the device is
  updated in place, and only then is the snapshot handed to \<open>async_set_updated_data\<close>.
\<close>

definition send_relay_command ::
  "(pyval \<Rightarrow> string) \<Rightarrow> session \<Rightarrow> 'w listeners \<Rightarrow> coordinator \<Rightarrow> 'w \<Rightarrow>
   string \<Rightarrow> string \<Rightarrow> pyval \<Rightarrow> (coordinator \<times> 'w) \<times> (py_exc + pyval)" where
  "send_relay_command repr sess notify c w device_id command val =
     (case sess (command_request c device_id command val) of
        Inl err \<Rightarrow> ((c, w), Inl err)
      | Inr resp \<Rightarrow>
          if status resp \<noteq> 200
          then (case json_body resp of
                  Inl err \<Rightarrow> ((c, w), Inl err)
                | Inr (PDict error_data) \<Rightarrow>
                    ((c, w), Inl (PyException (''Command failed: '' @
                       py_str repr (get_default error_data (KStr ''message'') (PStr ''Unknown error'')))))
                | Inr _ \<Rightarrow> ((c, w), Inl AttributeError))
          else (case json_body resp of
                  Inl err \<Rightarrow> ((c, w), Inl err)
                | Inr result \<Rightarrow>
                    (case map_of (data c) device_id of
                       None \<Rightarrow> ((c, w), Inr result)
                     | Some entry \<Rightarrow>
                         (case dict_update entry result of
                            (entry', Some err) \<Rightarrow>
                              ((c\<lparr>data := setitem (data c) device_id entry'\<rparr>, w), Inl err)
                          | (entry', None) \<Rightarrow>
                              (case async_set_updated_data notify c
                                      (setitem (data c) device_id entry') w of
                                 (cw, Some err) \<Rightarrow> (cw, Inl err)
                               | (cw, None) \<Rightarrow> (cw, Inr result))))))"

definition status_request :: "coordinator \<Rightarrow> request" where
  "status_request c =
     \<lparr>req_method = ''GET'', req_url = base_url c @ ''/api/status'', req_headers = coord_headers c, req_json = None\<rparr>"

text \<open>
  \<open>test_connection\<close>: every exception gives \<open>False\<close>, among them the \<open>AttributeError\<close>
  of \<open>data.get\<close> on a body that is no dict. The value returned on status 200 is the
  value of \<open>online\<close> as decoded.
\<close>

definition test_connection :: "session \<Rightarrow> coordinator \<Rightarrow> pyval" where
  "test_connection sess c =
     (case sess (status_request c) of
        Inl err \<Rightarrow> PBool False
      | Inr resp \<Rightarrow>
          if status resp = 200
          then (case json_body resp of
                  Inl err \<Rightarrow> PBool False
                | Inr (PDict body) \<Rightarrow> get_default body (KStr ''online'') (PBool False)
                | Inr _ \<Rightarrow> PBool False)
          else PBool False)"

section \<open>sensor.py\<close>

text \<open>\<open>MultitekDeviceCountSensor.native_value\<close>.\<close>

definition device_count :: "coordinator \<Rightarrow> nat" where
  "device_count c = length (data c)"

text \<open>The loop of \<open>MultitekDeviceCountSensor.extra_state_attributes\<close>.\<close>

fun count_types :: "(pykey \<times> int) list \<Rightarrow> pydict list \<Rightarrow> py_exc + (pykey \<times> int) list" where
  "count_types device_types [] = Inr device_types"
| "count_types device_types (device # rest) =
     (case py_key (get_default device (KStr ''type_name'') (PStr ''unknown'')) of
        Inl err \<Rightarrow> Inl err
      | Inr device_type \<Rightarrow>
          count_types
            (setitem device_types device_type (get_default device_types device_type 0 + 1)) rest)"

record count_attributes =
  device_types :: "(pykey \<times> int) list"
  attr_tablet_ip :: string
  attr_tablet_port :: int

definition device_count_attributes :: "config_entry \<Rightarrow> coordinator \<Rightarrow> py_exc + count_attributes" where
  "device_count_attributes entry c =
     (case count_types [] (map snd (data c)) of
        Inl err \<Rightarrow> Inl err
      | Inr dt \<Rightarrow> Inr \<lparr>device_types = dt, attr_tablet_ip = tablet_ip entry,
                       attr_tablet_port = tablet_port entry\<rparr>)"

text \<open>\<open>MultitekConnectionStatusSensor.native_value\<close>.\<close>

definition connection_status :: "coordinator \<Rightarrow> string" where
  "connection_status c = (if last_update_success c then ''Connected'' else ''Disconnected'')"

section \<open>switch.py\<close>

definition SWITCH_DEVICE_TYPES :: "int list" where
  "SWITCH_DEVICE_TYPES =
     [RELAY_TYPE_LIGHT, RELAY_TYPE_ON_OFF, RELAY_TYPE_GAS, RELAY_TYPE_ELECTRIC, RELAY_TYPE_WATER]"

text \<open>\<open>v in SWITCH_DEVICE_TYPES\<close> compares with \<open>==\<close>: \<open>True == 1\<close>.\<close>

fun py_eq_int :: "pyval \<Rightarrow> int \<Rightarrow> bool" where
  "py_eq_int (PInt n) m = (n = m)"
| "py_eq_int (PBool b) m = ((if b then 1 else 0) = m)"
| "py_eq_int _ m = False"

datatype entity_state = StateOn | StateOff | StateUnknown

record switch =
  sw_device_id :: string
  attr_unique_id :: string
  attr_name :: pyval
  attr_icon :: string
  attr_extra_state_attributes :: "(string \<times> pyval) list"
  attr_is_on :: pyval
  written_state :: entity_state

text \<open>
  Modelled from the spec: \<open>async_write_ha_state\<close> and the state of a toggle entity
  belong to Home Assistant. Writing the state publishes what the entity reports at that
  moment: unknown when \<open>is_on\<close> is \<open>None\<close>, on when it is true, off otherwise.
\<close>

definition async_write_ha_state :: "switch \<Rightarrow> switch" where
  "async_write_ha_state sw =
     sw\<lparr>written_state :=
          (if attr_is_on sw = PNone then StateUnknown
           else if truthy (attr_is_on sw) then StateOn else StateOff)\<rparr>"

text \<open>
  \<open>_update_from_data\<close>. The look-up of the icon hashes the device type and raises on a
  list or a dict, after the name has been set.
\<close>

definition update_from_data :: "switch \<Rightarrow> pydict \<Rightarrow> switch \<times> py_exc option" where
  "update_from_data sw device_data =
     (let device_type = get_default device_data (KStr ''type'') (PInt RELAY_TYPE_ON_OFF);
          sw1 = sw\<lparr>attr_name :=
                     get_default device_data (KStr ''name'') (PStr (''Relay '' @ sw_device_id sw))\<rparr>
      in case py_key device_type of
           Inl err \<Rightarrow> (sw1, Some err)
         | Inr k \<Rightarrow>
             (sw1\<lparr>attr_icon := get_default DEVICE_TYPE_ICONS k ''mdi:toggle-switch'',
                  attr_extra_state_attributes :=
                    [(''device_type'',
                      get_default device_data (KStr ''type_name'')
                        (PStr (get_default DEVICE_TYPE_NAMES k ''Unknown''))),
                     (''room_name'', get_default device_data (KStr ''room_name'') (PStr [])),
                     (''flat_name'', get_default device_data (KStr ''flat_name'') (PStr [])),
                     (''favourite'', get_default device_data (KStr ''favourite'') (PBool False))],
                  attr_is_on := get_default device_data (KStr ''state'') (PBool False)\<rparr>,
              None))"

text \<open>The constructor: no state has been written yet.\<close>

definition MultitekRelaySwitch :: "config_entry \<Rightarrow> string \<Rightarrow> pydict \<Rightarrow> py_exc + switch" where
  "MultitekRelaySwitch entry device_id device_data =
     (case update_from_data
             \<lparr>sw_device_id = device_id,
              attr_unique_id = entry_id entry @ ''_'' @ device_id,
              attr_name = PNone, attr_icon = [], attr_extra_state_attributes = [],
              attr_is_on = PNone, written_state = StateUnknown\<rparr>
             device_data of
        (sw, None) \<Rightarrow> Inr sw
      | (sw, Some err) \<Rightarrow> Inl err)"

text \<open>The first loop of \<open>async_setup_entry\<close>: one switch per device of a switch type.\<close>

fun create_switches :: "config_entry \<Rightarrow> snapshot \<Rightarrow> py_exc + switch list" where
  "create_switches entry [] = Inr []"
| "create_switches entry ((device_id, device_data) # rest) =
     (if list_ex (py_eq_int (get_default device_data (KStr ''type'') (PInt RELAY_TYPE_ON_OFF)))
           SWITCH_DEVICE_TYPES
      then (case MultitekRelaySwitch entry device_id device_data of
              Inl err \<Rightarrow> Inl err
            | Inr sw \<Rightarrow>
                (case create_switches entry rest of
                   Inl err \<Rightarrow> Inl err
                 | Inr sws \<Rightarrow> Inr (sw # sws)))
      else create_switches entry rest)"

text \<open>\<open>_handle_coordinator_update\<close>, the observer a switch registers with the coordinator.\<close>

definition handle_coordinator_update :: "switch listeners" where
  "handle_coordinator_update c sw =
     (case map_of (data c) (sw_device_id sw) of
        None \<Rightarrow> (sw, None)
      | Some device_data \<Rightarrow>
          if device_data \<noteq> []
          then (case update_from_data sw device_data of
                  (sw', Some err) \<Rightarrow> (sw', Some err)
                | (sw', None) \<Rightarrow> (async_write_ha_state sw', None))
          else (sw, None))"

definition async_turn_on ::
  "(pyval \<Rightarrow> string) \<Rightarrow> session \<Rightarrow> coordinator \<Rightarrow> switch \<Rightarrow> (coordinator \<times> switch) \<times> py_exc option" where
  "async_turn_on repr sess c sw =
     (case send_relay_command repr sess handle_coordinator_update c sw
             (sw_device_id sw) ''set_state'' (PBool True) of
        (cw, Inl err) \<Rightarrow> (cw, Some err)
      | ((c', sw'), Inr result) \<Rightarrow>
          ((c', async_write_ha_state (sw'\<lparr>attr_is_on := PBool True\<rparr>)), None))"

definition async_turn_off ::
  "(pyval \<Rightarrow> string) \<Rightarrow> session \<Rightarrow> coordinator \<Rightarrow> switch \<Rightarrow> (coordinator \<times> switch) \<times> py_exc option" where
  "async_turn_off repr sess c sw =
     (case send_relay_command repr sess handle_coordinator_update c sw
             (sw_device_id sw) ''set_state'' (PBool False) of
        (cw, Inl err) \<Rightarrow> (cw, Some err)
      | ((c', sw'), Inr result) \<Rightarrow>
          ((c', async_write_ha_state (sw'\<lparr>attr_is_on := PBool False\<rparr>)), None))"

definition async_toggle ::
  "(pyval \<Rightarrow> string) \<Rightarrow> session \<Rightarrow> coordinator \<Rightarrow> switch \<Rightarrow> (coordinator \<times> switch) \<times> py_exc option" where
  "async_toggle repr sess c sw =
     (case send_relay_command repr sess handle_coordinator_update c sw
             (sw_device_id sw) ''toggle'' PNone of
        (cw, Inl err) \<Rightarrow> (cw, Some err)
      | ((c', sw'), Inr result) \<Rightarrow>
          ((c', async_write_ha_state (sw'\<lparr>attr_is_on := PBool (\<not> truthy (attr_is_on sw'))\<rparr>)),
           None))"


section \<open>Notions used in the statements\<close>


text \<open>
  A fetch fails when the request or the reading of the body times out or raises a
  client error, or when the status is not 200.
\<close>

definition fetch_fails :: "session \<Rightarrow> coordinator \<Rightarrow> bool" where
  "fetch_fails sess c =
     (case sess (devices_request c) of
        Inl TimeoutError \<Rightarrow> True
      | Inl (ClientError m) \<Rightarrow> True
      | Inl _ \<Rightarrow> False
      | Inr resp \<Rightarrow>
          status resp \<noteq> 200 \<or>
          (case json_body resp of
             Inl TimeoutError \<Rightarrow> True
           | Inl (ClientError m) \<Rightarrow> True
           | _ \<Rightarrow> False))"

text \<open>
  The transport call of a command fails when it times out, on the request or on the
  reading of the body, or when the status is not 200.
\<close>

definition command_fails :: "session \<Rightarrow> request \<Rightarrow> bool" where
  "command_fails sess req =
     (case sess req of
        Inl err \<Rightarrow> err = TimeoutError
      | Inr resp \<Rightarrow> status resp \<noteq> 200 \<or> json_body resp = Inl TimeoutError)"

subsection \<open>Concrete inputs\<close>

text \<open>
  A \<open>repr\<close> for the inputs below, none of which prints a container; a server that
  answers every request with status 200 and one body, one that never answers in time,
  one whose body does not arrive in time, and one that answers 500 with a message;
  observers that do nothing.
\<close>

definition no_repr :: "pyval \<Rightarrow> string" where
  "no_repr v = []"

definition respond :: "pyval \<Rightarrow> session" where
  "respond body req = Inr \<lparr>status = 200, json_body = Inr body\<rparr>"

definition timing_out :: session where
  "timing_out req = Inl TimeoutError"

definition stalling :: session where
  "stalling req = Inr \<lparr>status = 200, json_body = Inl TimeoutError\<rparr>"

definition refusing :: session where
  "refusing req =
     Inr \<lparr>status = 500, json_body = Inr (PDict [(KStr ''message'', PStr ''busy'')])\<rparr>"

definition quiet :: "unit listeners" where
  "quiet c w = (w, None)"

definition lamp :: pydict where
  "lamp = [(KStr ''id'', PStr ''1''), (KStr ''type'', PInt 1),
           (KStr ''name'', PStr ''Lamp''), (KStr ''state'', PBool False)]"

definition lamp_on :: pydict where
  "lamp_on = [(KStr ''id'', PStr ''1''), (KStr ''type'', PInt 1),
              (KStr ''name'', PStr ''Lamp''), (KStr ''state'', PBool True)]"

definition fan :: pydict where
  "fan = [(KStr ''id'', PStr ''2''), (KStr ''type'', PInt 3), (KStr ''state'', PBool True)]"




definition tablet_entry :: config_entry where
  "tablet_entry = \<lparr>entry_id = ''e1'', tablet_ip = ''192.168.1.50'', tablet_port = 8123,
                    use_auth = False, api_key = []\<rparr>"

definition tablet :: coordinator where
  "tablet = MultitekDataCoordinator tablet_entry"

definition two_devices :: coordinator where
  "two_devices = tablet\<lparr>data := [(''1'', lamp), (''2'', fan)], last_update_success := True\<rparr>"

definition devices_body :: pyval where
  "devices_body = PDict [(KStr ''devices'', PList [PDict lamp])]"

definition toggle_reply :: pyval where
  "toggle_reply = PDict [(KStr ''id'', PStr ''1''), (KStr ''state'', PBool True)]"

text \<open>The coordinator after a first refresh that fetched the lamp alone.\<close>

definition first_refresh :: coordinator where
  "first_refresh = refresh no_repr (respond devices_body) tablet"

text \<open>The switch that the set-up creates for the lamp.\<close>

definition lamp_switch :: switch where
  "lamp_switch =
     \<lparr>sw_device_id = ''1'', attr_unique_id = ''e1_1'', attr_name = PStr ''Lamp'',
      attr_icon = ''mdi:lightbulb'',
      attr_extra_state_attributes =
        [(''device_type'', PStr ''Light''), (''room_name'', PStr []),
         (''flat_name'', PStr []), (''favourite'', PBool False)],
      attr_is_on = PBool False, written_state = StateUnknown\<rparr>"

section \<open>Dicts built by repeated assignment\<close>

lemmas const_defs =
  RELAY_TYPE_LIGHT_def RELAY_TYPE_SHUTTER_def RELAY_TYPE_ON_OFF_def RELAY_TYPE_GAS_def
  RELAY_TYPE_ELECTRIC_def RELAY_TYPE_WATER_def API_DEVICES_def API_RELAY_STATE_def
  API_RELAY_TOGGLE_def DEVICE_TYPE_ICONS_def DEVICE_TYPE_NAMES_def SWITCH_DEVICE_TYPES_def

lemma tablet_fields:
  "tablet = \<lparr>base_url = ''http://192.168.1.50:8123'', coord_headers = [],
             data = [], last_update_success = False\<rparr>"
  by (simp add: tablet_def MultitekDataCoordinator_def tablet_entry_def str_int_def digits.simps)


lemma build_devices_Inr_dicts:
  "build_devices repr acc xs = Inr snap \<Longrightarrow> \<exists>ds. xs = map PDict ds"
proof (induction xs arbitrary: acc)
  case Nil
  then show ?case by simp
next
  case (Cons x xs)
  then show ?case by (cases x) (auto simp: Cons_eq_map_conv)
qed








lemma map_of_merge_items:
  "map_of (merge_items d kvs) = map_of d ++ map_of (rev kvs)"
proof (induction kvs arbitrary: d)
  case Nil
  then show ?case by simp
next
  case (Cons kv kvs)
  obtain k v where kv: "kv = (k, v)" by (cases kv)
  show ?case
    unfolding kv
    by (simp add: Cons.IH update_conv' fun_eq_iff map_add_def split: option.splits)
qed

lemma map_of_rev_distinct:
  assumes "distinct (map fst xs)"
  shows "map_of (rev xs) = map_of xs"
proof -
  have "distinct (map fst (rev xs))"
    using assms by (simp add: rev_map [symmetric])
  then show ?thesis
    using assms by (simp add: map_of_inject_set)
qed

lemma map_of_setitem_other: "k' \<noteq> k \<Longrightarrow> map_of (setitem al k v) k' = map_of al k'"
  by (simp add: update_conv')

lemma keys_setitem_present:
  "map_of al k = Some old \<Longrightarrow> map fst (setitem al k v) = map fst al"
  by (simp add: update_keys) (metis domI dom_map_of_conv_image_fst image_set)

section \<open>Refresh\<close>


text \<open>Every refresh that returns has fetched a list of dicts.\<close>

lemma async_update_data_InrD:
  assumes "async_update_data repr sess c = Inr snap"
  shows "\<exists>resp body ds. sess (devices_request c) = Inr resp \<and> status resp = 200 \<and>
           json_body resp = Inr body \<and> devices_of body = Inr (map PDict ds)"
proof -
  obtain resp where r: "sess (devices_request c) = Inr resp"
    using assms by (cases "sess (devices_request c)") (simp_all add: async_update_data_def)
  have st: "status resp = 200"
    using assms r by (simp add: async_update_data_def split: if_splits)
  obtain body where b: "json_body resp = Inr body"
    using assms r st by (cases "json_body resp") (simp_all add: async_update_data_def)
  obtain xs where x: "devices_of body = Inr xs"
    using assms r st b by (cases "devices_of body") (simp_all add: async_update_data_def)
  have "build_devices repr [] xs = Inr snap"
    using assms r st b x
    by (cases "build_devices repr [] xs") (simp_all add: async_update_data_def)
  then obtain ds where "xs = map PDict ds"
    using build_devices_Inr_dicts by blast
  with r st b x show ?thesis by blast
qed



lemma fetch_fails_UpdateFailed:
  assumes "fetch_fails sess c"
  shows "\<exists>msg. async_update_data repr sess c = Inl (UpdateFailed msg)"
proof (cases "sess (devices_request c)")
  case (Inl err)
  with assms show ?thesis
    by (cases err) (simp_all add: fetch_fails_def async_update_data_def)
next
  case (Inr resp)
  show ?thesis
  proof (cases "status resp = 200")
    case False
    with Inr show ?thesis by (simp add: async_update_data_def)
  next
    case True
    with assms Inr obtain err where e: "json_body resp = Inl err"
      by (cases "json_body resp") (simp_all add: fetch_fails_def)
    with assms Inr True show ?thesis
      by (cases err) (simp_all add: fetch_fails_def async_update_data_def)
  qed
qed

text \<open>
  C2. When the fetch fails (a timeout, a client error or a status other than 200),
  \<open>_async_update_data\<close> raises \<open>UpdateFailed\<close>, and the refresh leaves the snapshot as it
  was and clears \<open>last_update_success\<close>.
\<close>

theorem refresh_failure_keeps_snapshot:
  assumes "fetch_fails sess c"
  shows "(\<exists>msg. async_update_data repr sess c = Inl (UpdateFailed msg))
       \<and> data (refresh repr sess c) = data c
       \<and> \<not> last_update_success (refresh repr sess c)"
proof -
  obtain msg where m: "async_update_data repr sess c = Inl (UpdateFailed msg)"
    using fetch_fails_UpdateFailed [OF assms] by blast
  have "data (refresh repr sess c) = data c"
    by (simp add: refresh_def m)
  moreover have "\<not> last_update_success (refresh repr sess c)"
    by (simp add: refresh_def m)
  ultimately show ?thesis using m by blast
qed

theorem refresh_failure_keeps_snapshot_witness:
  "fetch_fails timing_out two_devices
   \<and> async_update_data no_repr timing_out two_devices
      = Inl (UpdateFailed ''Timeout fetching data from http://192.168.1.50:8123'')
   \<and> data (refresh no_repr timing_out two_devices) = [(''1'', lamp), (''2'', fan)]
   \<and> \<not> last_update_success (refresh no_repr timing_out two_devices)"
  using refresh_failure_keeps_snapshot [of timing_out two_devices no_repr]
  by (simp add: fetch_fails_def async_update_data_def timing_out_def two_devices_def
        tablet_fields)

text \<open>
  After a successful fetch, any number of failed refreshes leaves the snapshot of that
  fetch in place.
\<close>

lemma failed_refreshes_keep_snapshot:
  "\<forall>s \<in> set fs. fetch_fails s c \<Longrightarrow> data (fold (refresh repr) fs c) = data c"
proof (induction fs arbitrary: c)
  case Nil
  then show ?case by simp
next
  case (Cons s fs)
  obtain msg where "async_update_data repr s c = Inl (UpdateFailed msg)"
    using Cons.prems fetch_fails_UpdateFailed [of s c repr] by auto
  then have step: "refresh repr s c = c\<lparr>last_update_success := False\<rparr>"
    by (simp add: refresh_def)
  have "\<forall>s' \<in> set fs. fetch_fails s' (refresh repr s c)"
    using Cons.prems by (simp add: fetch_fails_def step devices_request_def)
  from Cons.IH [OF this] show ?case
    by (simp add: step)
qed



section \<open>Commands\<close>

lemma first_refresh_fields:
  "first_refresh = tablet\<lparr>data := [(''1'', lamp)], last_update_success := True\<rparr>"
  by (simp add: first_refresh_def refresh_def async_update_data_def respond_def devices_body_def
        get_default_def device_id_of_def lamp_def)

text \<open>A command returns a result only after status 200 and a body that decodes.\<close>

lemma send_relay_command_InrD:
  assumes "send_relay_command repr sess notify c w device_id command val = (cw, Inr result)"
  shows "\<exists>resp. sess (command_request c device_id command val) = Inr resp \<and> status resp = 200 \<and>
           json_body resp = Inr result"
proof -
  let ?req = "command_request c device_id command val"
  obtain resp where r: "sess ?req = Inr resp"
    using assms by (cases "sess ?req") (simp_all add: send_relay_command_def)
  have st: "status resp = 200"
  proof (rule ccontr)
    assume "status resp \<noteq> 200"
    with assms r show False
      by (simp add: send_relay_command_def split: sum.splits pyval.splits)
  qed
  obtain res where b: "json_body resp = Inr res"
    using assms r st by (cases "json_body resp") (simp_all add: send_relay_command_def)
  have "res = result"
    using assms r st b
    by (simp add: send_relay_command_def split: option.splits prod.splits)
  with r st b show ?thesis by blast
qed

lemma send_relay_command_present:
  assumes "map_of (data c) device_id = Some entry"
    and "send_relay_command repr sess notify c w device_id command val = ((c', w'), Inr result)"
  shows "\<exists>entry'. dict_update entry result = (entry', None) \<and>
           c' = c\<lparr>data := setitem (data c) device_id entry', last_update_success := True\<rparr>"
proof -
  obtain resp where r: "sess (command_request c device_id command val) = Inr resp"
    and st: "status resp = 200" and b: "json_body resp = Inr result"
    using send_relay_command_InrD [OF assms(2)] by blast
  obtain entry' exc where du: "dict_update entry result = (entry', exc)"
    by (cases "dict_update entry result")
  have "exc = None"
  proof (cases exc)
    case (Some err)
    with assms r st b du show ?thesis by (simp add: send_relay_command_def)
  qed simp
  with du have du': "dict_update entry result = (entry', None)" by simp
  obtain w1 ne where n:
    "notify (c\<lparr>data := setitem (data c) device_id entry', last_update_success := True\<rparr>) w
       = (w1, ne)"
    by (cases "notify (c\<lparr>data := setitem (data c) device_id entry',
                          last_update_success := True\<rparr>) w")
  have "c' = c\<lparr>data := setitem (data c) device_id entry', last_update_success := True\<rparr>"
    using assms r st b du' n
    by (cases ne) (simp_all add: send_relay_command_def async_set_updated_data_def)
  with du' show ?thesis by blast
qed

text \<open>
  C3. When a command on a device of the snapshot returns the server's result, the entry
  of that device afterwards is the old entry updated with the result: for a result that
  is a dict, every field of the result with the result's value and every other field as
  it was. The entries of all other device ids, and the keys of the snapshot and their
  order, are unchanged.
\<close>

theorem send_command_patches_entry:
  assumes "map_of (data c) device_id = Some entry"
    and "send_relay_command repr sess notify c w device_id command val = ((c', w'), Inr result)"
  shows "\<exists>entry'. dict_update entry result = (entry', None)
       \<and> map_of (data c') device_id = Some entry'
       \<and> (\<forall>k. k \<noteq> device_id \<longrightarrow> map_of (data c') k = map_of (data c) k)
       \<and> map fst (data c') = map fst (data c)
       \<and> (\<forall>fields. result = PDict fields \<longrightarrow>
             map_of entry' = map_of entry ++ map_of (rev fields)
           \<and> (\<forall>f. f \<notin> fst ` set fields \<longrightarrow> map_of entry' f = map_of entry f)
           \<and> (distinct (map fst fields) \<longrightarrow> map_of entry' = map_of entry ++ map_of fields))"
proof -
  obtain entry' where du: "dict_update entry result = (entry', None)"
    and c': "c' = c\<lparr>data := setitem (data c) device_id entry', last_update_success := True\<rparr>"
    using send_relay_command_present [OF assms] by blast
  have d: "data c' = setitem (data c) device_id entry'"
    by (simp add: c')
  have same: "map_of (data c') device_id = Some entry'"
    by (simp add: d update_conv')
  have other: "\<forall>k. k \<noteq> device_id \<longrightarrow> map_of (data c') k = map_of (data c) k"
    by (simp add: d map_of_setitem_other)
  have keys: "map fst (data c') = map fst (data c)"
    unfolding d using assms(1) by (rule keys_setitem_present)
  have fields: "\<forall>fields. result = PDict fields \<longrightarrow>
             map_of entry' = map_of entry ++ map_of (rev fields)
           \<and> (\<forall>f. f \<notin> fst ` set fields \<longrightarrow> map_of entry' f = map_of entry f)
           \<and> (distinct (map fst fields) \<longrightarrow> map_of entry' = map_of entry ++ map_of fields)"
  proof (intro allI impI)
    fix fields
    assume "result = PDict fields"
    with du have e: "entry' = merge_items entry fields" by simp
    have m: "map_of entry' = map_of entry ++ map_of (rev fields)"
      by (simp add: e map_of_merge_items)
    have kept: "\<forall>f. f \<notin> fst ` set fields \<longrightarrow> map_of entry' f = map_of entry f"
    proof (intro allI impI)
      fix f
      assume "f \<notin> fst ` set fields"
      then have "map_of (rev fields) f = None"
        by (simp add: map_of_eq_None_iff)
      then show "map_of entry' f = map_of entry f"
        by (simp add: m map_add_def)
    qed
    have "distinct (map fst fields) \<longrightarrow> map_of entry' = map_of entry ++ map_of fields"
      by (simp add: m map_of_rev_distinct)
    with m kept show "map_of entry' = map_of entry ++ map_of (rev fields)
           \<and> (\<forall>f. f \<notin> fst ` set fields \<longrightarrow> map_of entry' f = map_of entry f)
           \<and> (distinct (map fst fields) \<longrightarrow> map_of entry' = map_of entry ++ map_of fields)"
      by blast
  qed
  from du same other keys fields show ?thesis by blast
qed

theorem send_command_patches_entry_witness:
  "map_of (data (fst (fst (send_relay_command no_repr (respond toggle_reply) quiet two_devices ()
                              ''1'' ''set_state'' (PBool True))))) ''1'' = Some lamp_on
   \<and> map_of (data (fst (fst (send_relay_command no_repr (respond toggle_reply) quiet two_devices ()
                              ''1'' ''set_state'' (PBool True))))) ''2'' = Some fan"
  using send_command_patches_entry
    [of two_devices "''1''" lamp no_repr "respond toggle_reply" quiet "()" "''set_state''"
        "PBool True" "two_devices\<lparr>data := [(''1'', lamp_on), (''2'', fan)]\<rparr>" "()" toggle_reply]
  by (simp add: two_devices_def send_relay_command_def respond_def toggle_reply_def quiet_def
        async_set_updated_data_def lamp_def lamp_on_def fan_def tablet_fields)

text \<open>
  C4. A command on a device id that is not in the snapshot, answered with status 200
  and a body that decodes, raises nothing, returns the server's result and leaves the
  coordinator, its snapshot included, and the observers as they were.
\<close>

theorem send_command_unknown_device:
  assumes "map_of (data c) device_id = None"
    and "sess (command_request c device_id command val) = Inr resp"
    and "status resp = 200" and "json_body resp = Inr result"
  shows "send_relay_command repr sess notify c w device_id command val = ((c, w), Inr result)"
  using assms by (simp add: send_relay_command_def)

theorem send_command_unknown_device_witness:
  "send_relay_command no_repr (respond toggle_reply) quiet two_devices () ''5'' ''toggle'' PNone
     = ((two_devices, ()), Inr toggle_reply)"
  using send_command_unknown_device
    [of two_devices "''5''" "respond toggle_reply" "''toggle''" PNone
        "\<lparr>status = 200, json_body = Inr toggle_reply\<rparr>" toggle_reply no_repr quiet "()"]
  by (simp add: two_devices_def respond_def)

text \<open>
  C5, as the code has it. When the transport call of a command fails, the command
  raises an error and leaves the coordinator, its snapshot included, and the observers
  as they were. The error is the one that occurred, raised again: the timeout itself
  after a timeout of the request, the exception of the reading of the body when that
  raises, a timeout among them, and after a status other than 200 with a dict as body a
  plain exception whose message is \<open>Command failed: \<close> followed by the \<open>message\<close> of the
  body, or by \<open>Unknown error\<close>. The device id is no part of the error.
\<close>

theorem send_command_failure_unchanged:
  assumes "command_fails sess (command_request c device_id command val)"
  shows "(\<exists>err. send_relay_command repr sess notify c w device_id command val = ((c, w), Inl err))
       \<and> (sess (command_request c device_id command val) = Inl TimeoutError \<longrightarrow>
            send_relay_command repr sess notify c w device_id command val
              = ((c, w), Inl TimeoutError))
       \<and> (\<forall>resp err.
            sess (command_request c device_id command val) = Inr resp \<and>
            json_body resp = Inl err \<longrightarrow>
            send_relay_command repr sess notify c w device_id command val = ((c, w), Inl err))
       \<and> (\<forall>resp error_data.
            sess (command_request c device_id command val) = Inr resp \<and> status resp \<noteq> 200 \<and>
            json_body resp = Inr (PDict error_data) \<longrightarrow>
            send_relay_command repr sess notify c w device_id command val =
              ((c, w), Inl (PyException (''Command failed: '' @
                 py_str repr (get_default error_data (KStr ''message'') (PStr ''Unknown error''))))))"
proof -
  let ?req = "command_request c device_id command val"
  let ?run = "send_relay_command repr sess notify c w device_id command val"
  have fail: "\<exists>err. ?run = ((c, w), Inl err)"
  proof (cases "sess ?req")
    case (Inl err)
    then show ?thesis by (simp add: send_relay_command_def)
  next
    case (Inr resp)
    show ?thesis
    proof (cases "status resp = 200")
      case True
      with assms Inr have "json_body resp = Inl TimeoutError"
        by (simp add: command_fails_def)
      with Inr True show ?thesis by (simp add: send_relay_command_def)
    next
      case False
      show ?thesis
      proof (cases "json_body resp")
        case (Inl err)
        with Inr False show ?thesis by (simp add: send_relay_command_def)
      next
        case b: (Inr error_data)
        with Inr False show ?thesis
          by (cases error_data) (simp_all add: send_relay_command_def)
      qed
    qed
  qed
  have t: "sess ?req = Inl TimeoutError \<longrightarrow> ?run = ((c, w), Inl TimeoutError)"
    by (simp add: send_relay_command_def)
  have r: "\<forall>resp err. sess ?req = Inr resp \<and> json_body resp = Inl err \<longrightarrow>
            ?run = ((c, w), Inl err)"
    by (simp add: send_relay_command_def)
  have n: "\<forall>resp error_data.
            sess ?req = Inr resp \<and> status resp \<noteq> 200 \<and> json_body resp = Inr (PDict error_data) \<longrightarrow>
            ?run = ((c, w), Inl (PyException (''Command failed: '' @
                 py_str repr (get_default error_data (KStr ''message'') (PStr ''Unknown error'')))))"
    by (simp add: send_relay_command_def)
  show ?thesis
  proof (intro conjI)
    show "\<exists>err. ?run = ((c, w), Inl err)" by (rule fail)
    show "sess ?req = Inl TimeoutError \<longrightarrow> ?run = ((c, w), Inl TimeoutError)" by (rule t)
    show "\<forall>resp err. sess ?req = Inr resp \<and> json_body resp = Inl err \<longrightarrow>
            ?run = ((c, w), Inl err)" by (rule r)
    show "\<forall>resp error_data.
            sess ?req = Inr resp \<and> status resp \<noteq> 200 \<and> json_body resp = Inr (PDict error_data) \<longrightarrow>
            ?run = ((c, w), Inl (PyException (''Command failed: '' @
                 py_str repr (get_default error_data (KStr ''message'') (PStr ''Unknown error'')))))"
      by (rule n)
  qed
qed

theorem send_command_failure_unchanged_witness:
  "command_fails timing_out (command_request two_devices ''1'' ''toggle'' PNone)
   \<and> send_relay_command no_repr timing_out quiet two_devices () ''1'' ''toggle'' PNone
       = ((two_devices, ()), Inl TimeoutError)
   \<and> command_fails stalling (command_request two_devices ''1'' ''toggle'' PNone)
   \<and> send_relay_command no_repr stalling quiet two_devices () ''1'' ''toggle'' PNone
       = ((two_devices, ()), Inl TimeoutError)
   \<and> command_fails refusing (command_request two_devices ''1'' ''toggle'' PNone)
   \<and> send_relay_command no_repr refusing quiet two_devices () ''1'' ''toggle'' PNone
       = ((two_devices, ()), Inl (PyException ''Command failed: busy''))"
  using send_command_failure_unchanged
    [of timing_out two_devices "''1''" "''toggle''" PNone no_repr quiet "()"]
    send_command_failure_unchanged
    [of stalling two_devices "''1''" "''toggle''" PNone no_repr quiet "()"]
    send_command_failure_unchanged
    [of refusing two_devices "''1''" "''toggle''" PNone no_repr quiet "()"]
  by (simp add: command_fails_def timing_out_def stalling_def refusing_def get_default_def)

text \<open>
  C5, as the specification states it, fails: the error of a timed-out command is the bare timeout,
  and the error after a status 500 is the same plain exception for the devices \<open>1\<close> and
  \<open>2\<close>; neither names the device.
\<close>

theorem command_error_without_device_id:
  "snd (send_relay_command no_repr timing_out quiet two_devices () ''1'' ''toggle'' PNone)
     = Inl TimeoutError
   \<and> snd (send_relay_command no_repr timing_out quiet two_devices () ''2'' ''toggle'' PNone)
     = Inl TimeoutError
   \<and> snd (send_relay_command no_repr refusing quiet two_devices () ''1'' ''toggle'' PNone)
     = Inl (PyException ''Command failed: busy'')
   \<and> snd (send_relay_command no_repr refusing quiet two_devices () ''2'' ''toggle'' PNone)
     = Inl (PyException ''Command failed: busy'')"
  by (simp add: send_relay_command_def timing_out_def refusing_def get_default_def)

text \<open>
  Beyond failures of the transport: a status 200 whose body is a list, here a pair for
  \<open>state\<close> followed by a number, makes \<open>dict.update\<close> raise after the pair has been
  stored, so the command raises with the entry already patched.
\<close>

lemma malformed_result_partial_patch:
  "send_relay_command no_repr (respond (PList [PList [PStr ''state'', PBool True], PInt 5])) quiet
     two_devices () ''1'' ''toggle'' PNone
   = ((two_devices\<lparr>data := [(''1'', lamp_on), (''2'', fan)]\<rparr>, ()), Inl TypeError)"
  by (simp add: send_relay_command_def respond_def two_devices_def lamp_def lamp_on_def)

section \<open>The views\<close>

text \<open>
  The grouping of the device-count sensor counts, for every key, the entries whose
  \<open>type_name\<close> (or \<open>unknown\<close>, when there is none) is that key.
\<close>

lemma count_types_counts:
  "count_types acc ds = Inr dt \<Longrightarrow>
   get_default dt k 0 =
     get_default acc k 0 +
     int (length (filter
       (\<lambda>d. py_key (get_default d (KStr ''type_name'') (PStr ''unknown'')) = Inr k) ds))"
proof (induction ds arbitrary: acc)
  case Nil
  then show ?case by simp
next
  case (Cons d ds)
  obtain t where t: "py_key (get_default d (KStr ''type_name'') (PStr ''unknown'')) = Inr t"
    using Cons.prems
    by (cases "py_key (get_default d (KStr ''type_name'') (PStr ''unknown''))") simp_all
  have "count_types (setitem acc t (get_default acc t 0 + 1)) ds = Inr dt"
    using Cons.prems t by simp
  from Cons.IH [OF this] show ?case
    using t by (simp add: get_default_def update_conv')
qed

text \<open>
  C6, as the specification states it, fails: after the first refresh with the lamp of the scenario,
  which has a \<open>type\<close> and no \<open>type_name\<close>, the grouping is \<open>unknown: 1\<close> and not
  \<open>Light: 1\<close>.
\<close>

theorem first_refresh_groups_unknown:
  "device_count_attributes tablet_entry first_refresh
     = Inr \<lparr>device_types = [(KStr ''unknown'', 1)], attr_tablet_ip = ''192.168.1.50'',
            attr_tablet_port = 8123\<rparr>
   \<and> device_count_attributes tablet_entry first_refresh
     \<noteq> Inr \<lparr>device_types = [(KStr ''Light'', 1)], attr_tablet_ip = ''192.168.1.50'',
            attr_tablet_port = 8123\<rparr>"
  by (simp add: first_refresh_fields device_count_attributes_def get_default_def lamp_def
        tablet_entry_def)

text \<open>
  C6, as the code has it. After the first refresh with the lamp of the scenario the
  device-count sensor reports 1, grouped by \<open>type_name\<close> as \<open>unknown: 1\<close>, and the
  connection-status sensor reports \<open>Connected\<close>; when the server sends the lamp with the
  \<open>type_name\<close> \<open>Light\<close>, the grouping is \<open>Light: 1\<close>.
\<close>

theorem first_refresh_views:
  "device_count first_refresh = 1
   \<and> device_count_attributes tablet_entry first_refresh
       = Inr \<lparr>device_types = [(KStr ''unknown'', 1)], attr_tablet_ip = ''192.168.1.50'',
              attr_tablet_port = 8123\<rparr>
   \<and> connection_status first_refresh = ''Connected''
   \<and> device_count_attributes tablet_entry
        (refresh no_repr
           (respond (PDict [(KStr ''devices'',
                             PList [PDict (lamp @ [(KStr ''type_name'', PStr ''Light'')])])]))
           tablet)
       = Inr \<lparr>device_types = [(KStr ''Light'', 1)], attr_tablet_ip = ''192.168.1.50'',
              attr_tablet_port = 8123\<rparr>"
  by (simp add: first_refresh_fields device_count_def connection_status_def
        device_count_attributes_def get_default_def lamp_def tablet_entry_def
        refresh_def async_update_data_def respond_def device_id_of_def)

section \<open>The switch\<close>

text \<open>A command that returns has notified the observers, and none of them raised.\<close>

lemma send_relay_command_notified:
  assumes "map_of (data c) device_id = Some entry"
    and "send_relay_command repr sess notify c w device_id command val = ((c', w'), Inr result)"
  shows "notify c' w = (w', None)"
proof -
  obtain entry' where du: "dict_update entry result = (entry', None)"
    and c': "c' = c\<lparr>data := setitem (data c) device_id entry', last_update_success := True\<rparr>"
    using send_relay_command_present [OF assms] by blast
  obtain resp where r: "sess (command_request c device_id command val) = Inr resp"
    and st: "status resp = 200" and b: "json_body resp = Inr result"
    using send_relay_command_InrD [OF assms(2)] by blast
  obtain w1 ne where n: "notify c' w = (w1, ne)"
    by (cases "notify c' w")
  have "ne = None \<and> w1 = w'"
    using assms r st b du n unfolding c'
    by (cases ne) (simp_all add: send_relay_command_def async_set_updated_data_def)
  with n show ?thesis by simp
qed

text \<open>
  In general: when a command of a switch on its own device returns a dict with a
  \<open>state\<close>, the switch, notified by the coordinator, holds that state and has written
  it, and the number of devices is as before.
\<close>

lemma toggle_command_reports_state:
  assumes "map_of (data c) (sw_device_id sw) = Some entry"
    and "send_relay_command repr sess handle_coordinator_update c sw (sw_device_id sw) command val
           = ((c', sw'), Inr (PDict kvs))"
    and "map_of (rev kvs) (KStr ''state'') = Some v"
  shows "attr_is_on sw' = v
       \<and> written_state sw' =
           (if v = PNone then StateUnknown else if truthy v then StateOn else StateOff)
       \<and> device_count c' = device_count c"
proof -
  let ?id = "sw_device_id sw"
  obtain entry' where du: "dict_update entry (PDict kvs) = (entry', None)"
    and c': "c' = c\<lparr>data := setitem (data c) ?id entry', last_update_success := True\<rparr>"
    using send_relay_command_present [OF assms(1,2)] by blast
  have e: "entry' = merge_items entry kvs"
    using du by simp
  have st: "map_of entry' (KStr ''state'') = Some v"
    using assms(3) by (simp add: e map_of_merge_items)
  then have ne: "entry' \<noteq> []" by auto
  have look: "map_of (data c') ?id = Some entry'"
    by (simp add: c' update_conv')
  have n: "handle_coordinator_update c' sw = (sw', None)"
    using send_relay_command_notified [OF assms(1,2)] .
  obtain sw1 exc where u: "update_from_data sw entry' = (sw1, exc)"
    by (cases "update_from_data sw entry'")
  have "exc = None \<and> sw' = async_write_ha_state sw1"
    using n look ne u by (cases exc) (simp_all add: handle_coordinator_update_def)
  then have exc: "exc = None" and sw': "sw' = async_write_ha_state sw1" by simp_all
  have on: "attr_is_on sw1 = v"
    using u exc st
    by (auto simp: update_from_data_def get_default_def Let_def split: sum.splits)
  have len: "length (setitem (data c) ?id entry') = length (data c)"
    using keys_setitem_present [OF assms(1), of entry'] by (metis length_map)
  show ?thesis
    using on len by (simp add: sw' async_write_ha_state_def c' device_count_def)
qed

text \<open>
  C7. After the first refresh of the scenario the set-up creates one switch for the
  lamp, off. The toggle command for device \<open>1\<close>, answered with status 200 and
  \<open>id: "1", state: true\<close>, returns that answer, patches the entry of the snapshot to
  \<open>state: true\<close> and notifies the switch, which then holds \<open>is_on = True\<close> and has
  written the state on. The device count and its grouping are what they were before
  the command.
\<close>

theorem toggle_command_switch_on:
  "create_switches tablet_entry (data first_refresh) = Inr [lamp_switch]
   \<and> send_relay_command no_repr (respond toggle_reply) handle_coordinator_update
        first_refresh lamp_switch ''1'' ''toggle'' PNone
       = ((first_refresh\<lparr>data := [(''1'', lamp_on)]\<rparr>,
           lamp_switch\<lparr>attr_is_on := PBool True, written_state := StateOn\<rparr>), Inr toggle_reply)
   \<and> device_count (first_refresh\<lparr>data := [(''1'', lamp_on)]\<rparr>) = device_count first_refresh
   \<and> device_count_attributes tablet_entry (first_refresh\<lparr>data := [(''1'', lamp_on)]\<rparr>)
       = device_count_attributes tablet_entry first_refresh"
  by (simp add: first_refresh_fields tablet_fields MultitekRelaySwitch_def
        update_from_data_def get_default_def lamp_def lamp_on_def lamp_switch_def const_defs
        tablet_entry_def send_relay_command_def respond_def toggle_reply_def
        async_set_updated_data_def handle_coordinator_update_def async_write_ha_state_def
        device_count_def device_count_attributes_def)

text \<open>
  The entity action \<open>async_toggle\<close> is another entry point: it awaits the same command
  and then negates \<open>is_on\<close>, which the notification has already set from the server's
  answer, and writes the state again. In the scenario the switch then reports off
  while the snapshot says on.
\<close>

lemma async_toggle_negates_confirmed_state:
  "async_toggle no_repr (respond toggle_reply) first_refresh lamp_switch
     = ((first_refresh\<lparr>data := [(''1'', lamp_on)]\<rparr>,
         lamp_switch\<lparr>attr_is_on := PBool False, written_state := StateOff\<rparr>), None)"
  by (simp add: first_refresh_fields tablet_fields
        update_from_data_def get_default_def lamp_def lamp_on_def lamp_switch_def const_defs
        send_relay_command_def respond_def toggle_reply_def
        async_set_updated_data_def handle_coordinator_update_def async_write_ha_state_def
        async_toggle_def)

section \<open>The connection test\<close>

text \<open>
  C9, as the specification states it, fails: with status 200 and the body \<open>online: "no"\<close> the test
  returns the string, which is neither \<open>True\<close> nor \<open>False\<close>.
\<close>

theorem connection_test_returns_field:
  "test_connection (respond (PDict [(KStr ''online'', PStr ''no'')])) tablet = PStr ''no''
   \<and> test_connection (respond (PDict [(KStr ''online'', PStr ''no'')])) tablet \<noteq> PBool True
   \<and> test_connection (respond (PDict [(KStr ''online'', PStr ''no'')])) tablet \<noteq> PBool False"
  by (simp add: test_connection_def respond_def get_default_def)

text \<open>
  C9, as the code has it. \<open>test_connection\<close> is a total function and raises nothing. It
  returns \<open>True\<close> exactly when the status is 200, the body is a dict and its \<open>online\<close> is
  \<open>True\<close>; with status 200 and a dict as body it returns the value of \<open>online\<close> as it was
  decoded, a boolean whenever the server sent one; in every other case (an exception of
  the request or of the reading of the body, another status, a body that is no dict, no
  \<open>online\<close>) it returns \<open>False\<close>.
\<close>

theorem test_connection_total:
  "(test_connection sess c = PBool True \<longleftrightarrow>
      (\<exists>resp body. sess (status_request c) = Inr resp \<and> status resp = 200 \<and>
         json_body resp = Inr (PDict body) \<and> map_of body (KStr ''online'') = Some (PBool True)))
   \<and> (\<forall>resp body v. sess (status_request c) = Inr resp \<and> status resp = 200 \<and>
         json_body resp = Inr (PDict body) \<and> map_of body (KStr ''online'') = Some v \<longrightarrow>
         test_connection sess c = v)
   \<and> ((\<forall>resp body v. \<not> (sess (status_request c) = Inr resp \<and> status resp = 200 \<and>
         json_body resp = Inr (PDict body) \<and> map_of body (KStr ''online'') = Some v)) \<longrightarrow>
         test_connection sess c = PBool False)"
proof (intro conjI)
  show "\<forall>resp body v. sess (status_request c) = Inr resp \<and> status resp = 200 \<and>
         json_body resp = Inr (PDict body) \<and> map_of body (KStr ''online'') = Some v \<longrightarrow>
         test_connection sess c = v"
    by (simp add: test_connection_def get_default_def)
  show "(\<forall>resp body v. \<not> (sess (status_request c) = Inr resp \<and> status resp = 200 \<and>
         json_body resp = Inr (PDict body) \<and> map_of body (KStr ''online'') = Some v)) \<longrightarrow>
         test_connection sess c = PBool False"
    by (auto simp: test_connection_def get_default_def
             split: sum.splits pyval.splits option.splits)
  show "test_connection sess c = PBool True \<longleftrightarrow>
      (\<exists>resp body. sess (status_request c) = Inr resp \<and> status resp = 200 \<and>
         json_body resp = Inr (PDict body) \<and> map_of body (KStr ''online'') = Some (PBool True))"
    by (auto simp: test_connection_def get_default_def
             split: sum.splits pyval.splits option.splits if_splits)
qed

theorem test_connection_total_witness:
  "test_connection (respond (PDict [(KStr ''online'', PBool True)])) tablet = PBool True
   \<and> test_connection timing_out tablet = PBool False"
  using test_connection_total [of "respond (PDict [(KStr ''online'', PBool True)])" tablet]
    test_connection_total [of timing_out tablet]
  by (simp add: respond_def timing_out_def)

end
